theory Spec2Isabelle
  imports Main
begin

section \<open>Python values shared by both modules\<close>

text \<open>
  Python text is modelled as \<open>string\<close>; a character stands for a code point below 256.
  Exceptions are values: the class together with the text that \<open>str(e)\<close> gives.
  Only subclasses of \<open>Exception\<close> are modelled, which is what every \<open>except\<close>
  clause of the two modules names.
\<close>

datatype exn_class =
    FileNotFoundError
  | RuntimeError
  | AttributeError
  | TypeError
  | ConnectionError
  | OtherError string

datatype exn = Exn exn_class string

fun exn_kind :: "exn \<Rightarrow> exn_class" where
  "exn_kind (Exn k msg) = k"

fun exn_str :: "exn \<Rightarrow> string" where
  "exn_str (Exn k msg) = msg"

definition quoted :: "string \<Rightarrow> string" where
  "quoted s = CHR 0x27 # s @ [CHR 0x27]"

text \<open>
  \<open>str.strip()\<close> without argument: whitespace is removed from the left end, then from the
  right end of what remains. Whitespace is what \<open>str.isspace\<close> accepts in the modelled
  range: 0x09 to 0x0D, 0x1C to 0x20, 0x85 and 0xA0.
\<close>

definition is_space :: "char \<Rightarrow> bool" where
  "is_space c = (of_char c \<in> set [9, 10, 11, 12, 13, 28, 29, 30, 31, 32, 133, 160 :: nat])"

definition lstrip :: "string \<Rightarrow> string" where
  "lstrip s = dropWhile is_space s"

definition rstrip :: "string \<Rightarrow> string" where
  "rstrip s = rev (dropWhile is_space (rev s))"

definition strip :: "string \<Rightarrow> string" where
  "strip s = rstrip (lstrip s)"

text \<open>\<open>os.path.join\<close> on POSIX with two components: an absolute second component wins.\<close>

definition path_join :: "string \<Rightarrow> string \<Rightarrow> string" where
  "path_join a b =
     (if b \<noteq> [] \<and> hd b = CHR ''/'' then b
      else if a = [] \<or> last a = CHR ''/'' then a @ b
      else a @ ''/'' @ b)"

section \<open>The environment\<close>

text \<open>
  What \<open>subprocess.run(cmd, stdout=PIPE, stderr=PIPE, universal_newlines=True, check=True)\<close>
  can do: the child ran to completion (return code, captured stdout, captured stderr), or the
  call itself raised (for a missing executable, \<open>FileNotFoundError\<close>). With \<open>check=True\<close> a
  non-zero return code is turned into \<open>CalledProcessError\<close>, whose \<open>stderr\<close> attribute is
  the captured text; that branch is written out in \<open>get_password\<close>, so \<open>RunRaised\<close>
  stands for every other exception of the call.
\<close>

datatype run_result =
    Completed int string string
  | RunRaised exn

datatype cert_reqs = CERT_NONE | CERT_OPTIONAL | CERT_REQUIRED

text \<open>ldap3's \<open>ALL\<close> is written \<open>GET_ALL_INFO\<close>, its older name in ldap3.\<close>

datatype get_info_mode = GET_NO_INFO | GET_DSA_INFO | GET_SCHEMA_INFO | GET_ALL_INFO

record Tls =
  validate :: cert_reqs

record Server =
  srv_host :: string
  srv_port :: nat
  srv_get_info :: get_info_mode
  srv_use_ssl :: bool
  srv_tls :: Tls

record Connection =
  conn_id :: nat
  bound :: bool

datatype engine = Engine nat

datatype db_connection = DbConnection nat

text \<open>
  Every call that leaves the two modules is a field of the environment: the file system,
  the child process, and the constructors of ldap3, cx\_Oracle and SQLAlchemy that touch the
  network or may raise. \<open>Tls(...)\<close> and \<open>Server(...)\<close> only store their arguments and are
  the records above; \<open>conn.close()\<close>, \<open>engine.dispose()\<close> and \<open>print\<close> are taken to return.
\<close>

record env =
  path_exists :: "string \<Rightarrow> bool"
  subprocess_run :: "string list \<Rightarrow> run_result"
  ldap_Connection :: "Server \<Rightarrow> string \<Rightarrow> string \<Rightarrow> bool \<Rightarrow> exn + Connection"
  makedsn :: "string \<Rightarrow> int \<Rightarrow> string \<Rightarrow> exn + string"
  create_engine :: "string \<Rightarrow> nat \<Rightarrow> exn + engine"
  engine_connect :: "engine \<Rightarrow> exn + db_connection"

text \<open>
  What a call of the secret retriever did: the processes it ran, with their result.
\<close>

datatype proc_event = SubprocessRun "string list" run_result

text \<open>
  The log of what a connection builder did, oldest first: calls that leave the module
  with their result (for a call into \<open>secret_retriever\<close>, also what the callee did),
  rebindings of the credential variables, and lines printed to standard error.
\<close>

datatype event =
    Call string string "exn + string" "proc_event list"
  | Rebind string "string option"
  | LdapConnection Server string string bool "exn + Connection"
  | MakeDsn string int string "exn + string"
  | CreateEngine string nat "exn + engine"
  | EngineConnect engine "exn + db_connection"
  | ConnClose db_connection
  | EngineDispose engine
  | PrintStderr string

section \<open>secret\_retriever.py\<close>

definition SECRETS_DIR :: string where
  "SECRETS_DIR = ''/opt/credential_store''"

definition GPG_PASSPHRASE_FILE :: string where
  "GPG_PASSPHRASE_FILE = path_join SECRETS_DIR ''.gpg_passphrase''"

definition enc_file :: "string \<Rightarrow> string" where
  "enc_file secret_name = path_join SECRETS_DIR (secret_name @ ''_secret.txt.gpg'')"

definition gpg_cmd :: "string \<Rightarrow> string list" where
  "gpg_cmd secret_name =
     [''gpg'', ''--batch'', ''--quiet'', ''--yes'',
      ''--passphrase-file'', GPG_PASSPHRASE_FILE,
      ''--decrypt'', enc_file secret_name]"

definition get_password :: "env \<Rightarrow> string \<Rightarrow> (exn + string) \<times> proc_event list" where
  "get_password w secret_name =
     (if \<not> path_exists w (enc_file secret_name) then
        (Inl (Exn FileNotFoundError
           (''Encrypted secret for '' @ quoted secret_name @ '' not found.'')), [])
      else
        let cmd = gpg_cmd secret_name;
            r = subprocess_run w cmd
        in case r of
             Completed rc out err \<Rightarrow>
               if rc = 0 then (Inr (strip out), [SubprocessRun cmd r])
               else (Inl (Exn RuntimeError
                      (''GPG decryption failed for '' @ quoted secret_name @ '': '' @ err)),
                     [SubprocessRun cmd r])
           | RunRaised e \<Rightarrow>
               if exn_kind e = FileNotFoundError then
                 (Inl (Exn RuntimeError ''gpg command not found. Is GnuPG installed?''),
                  [SubprocessRun cmd r])
               else (Inl e, [SubprocessRun cmd r]))"

section \<open>connection\_helpers.py\<close>

text \<open>
  \<open>import secret_retriever\<close> binds a module object; \<open>secret_retriever.get_secret(x)\<close>
  looks the attribute up in the namespace the module has at the time of the call and calls
  what it finds. A namespace maps a name to a function of one argument or to an object that
  cannot be called (with the name of its type). \<open>secret_retriever\<close> is the namespace that
  executing \<^verbatim>\<open>secret_retriever.py\<close> leaves: its two imports, its two constants and its one
  function.
\<close>

datatype attr =
    Func "string \<Rightarrow> (exn + string) \<times> proc_event list"
  | NonCallable string

type_synonym namespace = "string \<Rightarrow> attr option"

definition secret_retriever :: "env \<Rightarrow> namespace" where
  "secret_retriever w name =
     (if name = ''get_password'' then Some (Func (get_password w))
      else if name = ''os'' \<or> name = ''subprocess'' then Some (NonCallable ''module'')
      else if name = ''SECRETS_DIR'' \<or> name = ''GPG_PASSPHRASE_FILE'' then Some (NonCallable ''str'')
      else None)"

definition call_attr :: "namespace \<Rightarrow> string \<Rightarrow> string \<Rightarrow> (exn + string) \<times> event list" where
  "call_attr m name arg =
     (case m name of
        None \<Rightarrow>
          (Inl (Exn AttributeError
             (''module '' @ quoted ''secret_retriever'' @ '' has no attribute '' @ quoted name)), [])
      | Some (NonCallable ty) \<Rightarrow>
          (Inl (Exn TypeError (quoted ty @ '' object is not callable'')), [])
      | Some (Func f) \<Rightarrow> (case f arg of (r, evs) \<Rightarrow> (r, [Call name arg r evs])))"

text \<open>
  How a call ends: it returns a value, \<open>sys.exit(n)\<close> ends the process, or an exception
  leaves the function.
\<close>

datatype 'a outcome = Returned 'a | SysExit int | Raised exn

record frame =
  trace :: "event list"

definition log :: "event list \<Rightarrow> 'a frame_scheme \<Rightarrow> 'a frame_scheme" where
  "log evs f = f\<lparr>trace := trace f @ evs\<rparr>"

subsection \<open>create\_ldap\_connection\<close>

record ldap_frame = frame +
  oud_user :: "string option"
  oud_pswd :: "string option"

text \<open>The body of the \<open>try\<close> block: the value returned or the exception raised.\<close>

definition ldap_try ::
  "env \<Rightarrow> namespace \<Rightarrow> string \<Rightarrow> string \<Rightarrow> string \<Rightarrow> ldap_frame \<Rightarrow> (exn + Connection) \<times> ldap_frame"
where
  "ldap_try w m ldap_server user_secret pswd_secret f0 =
     (case call_attr m ''get_secret'' user_secret of
        (Inl e, evs) \<Rightarrow> (Inl e, log evs f0)
      | (Inr u, evs) \<Rightarrow>
          let f1 = log (evs @ [Rebind ''oud_user'' (Some u)]) (f0\<lparr>oud_user := Some u\<rparr>) in
          (case call_attr m ''get_secret'' pswd_secret of
             (Inl e, evs) \<Rightarrow> (Inl e, log evs f1)
           | (Inr p, evs) \<Rightarrow>
               let f2 = log (evs @ [Rebind ''oud_pswd'' (Some p)]) (f1\<lparr>oud_pswd := Some p\<rparr>);
                   tls = \<lparr>validate = CERT_NONE\<rparr>;
                   srv = \<lparr>srv_host = ldap_server, srv_port = 636, srv_get_info = GET_ALL_INFO,
                          srv_use_ssl = True, srv_tls = tls\<rparr>;
                   r = ldap_Connection w srv u p True;
                   f3 = log [LdapConnection srv u p True r] f2
               in (case r of
                     Inl e \<Rightarrow> (Inl e, f3)
                   | Inr oud \<Rightarrow>
                       let f4 = log [Rebind ''oud_user'' None, Rebind ''oud_pswd'' None]
                                  (f3\<lparr>oud_user := None, oud_pswd := None\<rparr>)
                       in if \<not> bound oud then
                            (Inl (Exn ConnectionError (''Error: cannot bind to '' @ ldap_server)), f4)
                          else (Inr oud, f4))))"

definition create_ldap_connection ::
  "env \<Rightarrow> namespace \<Rightarrow> string \<Rightarrow> string \<Rightarrow> string \<Rightarrow> Connection outcome \<times> ldap_frame"
where
  "create_ldap_connection w m ldap_server user_secret pswd_secret =
     (let f0 = \<lparr>trace = [], oud_user = None, oud_pswd = None\<rparr> in
      case ldap_try w m ldap_server user_secret pswd_secret f0 of
        (Inr oud, f) \<Rightarrow> (Returned oud, f)
      | (Inl e, f) \<Rightarrow>
          (SysExit 1, log [PrintStderr (''Error creating LDAP connection: '' @ exn_str e)] f))"

subsection \<open>create\_db\_connection\<close>

record db_frame = frame +
  db_user :: "string option"
  db_pswd :: "string option"
  engine :: "engine option"
  conn :: "db_connection option"

datatype db_result = EngineOnly engine | EngineAndConn engine db_connection

definition db_try ::
  "env \<Rightarrow> namespace \<Rightarrow> string \<Rightarrow> int \<Rightarrow> string \<Rightarrow> string \<Rightarrow> string \<Rightarrow> bool \<Rightarrow> db_frame
     \<Rightarrow> (exn + db_result) \<times> db_frame"
where
  "db_try w m dbhost dbport dbsid user_secret pswd_secret engine_only f0 =
     (case call_attr m ''get_secret'' user_secret of
        (Inl e, evs) \<Rightarrow> (Inl e, log evs f0)
      | (Inr u, evs) \<Rightarrow>
          let f1 = log (evs @ [Rebind ''db_user'' (Some u)]) (f0\<lparr>db_user := Some u\<rparr>) in
          if u = [] then
            (Inl (Exn RuntimeError
               (''Retrieved empty username secret for '' @ quoted user_secret)), f1)
          else
          (case call_attr m ''get_secret'' pswd_secret of
             (Inl e, evs) \<Rightarrow> (Inl e, log evs f1)
           | (Inr p, evs) \<Rightarrow>
               let f2 = log (evs @ [Rebind ''db_pswd'' (Some p)]) (f1\<lparr>db_pswd := Some p\<rparr>) in
               if p = [] then
                 (Inl (Exn RuntimeError
                    (''Retrieved empty password for '' @ quoted pswd_secret)), f2)
               else
               let d = makedsn w dbhost dbport dbsid;
                   f3 = log [MakeDsn dbhost dbport dbsid d] f2
               in (case d of
                     Inl e \<Rightarrow> (Inl e, f3)
                   | Inr datasourcename \<Rightarrow>
                       let connectstring =
                             ''oracle+cx_oracle://'' @ u @ '':'' @ p @ ''@'' @ datasourcename;
                           f4 = log [Rebind ''db_user'' None, Rebind ''db_pswd'' None]
                                  (f3\<lparr>db_user := None, db_pswd := None\<rparr>);
                           g = create_engine w connectstring 128;
                           f5 = log [CreateEngine connectstring 128 g] f4
                       in (case g of
                             Inl e \<Rightarrow> (Inl e, f5)
                           | Inr eng \<Rightarrow>
                               let f6 = f5\<lparr>engine := Some eng\<rparr> in
                               if engine_only then (Inr (EngineOnly eng), f6)
                               else
                                 let c = engine_connect w eng;
                                     f7 = log [EngineConnect eng c] f6
                                 in (case c of
                                       Inl e \<Rightarrow> (Inl e, f7)
                                     | Inr cn \<Rightarrow>
                                         (Inr (EngineAndConn eng cn), f7\<lparr>conn := Some cn\<rparr>))))))"

text \<open>The \<open>except Exception\<close> handler: print, close what is open, exit.\<close>

definition db_handler :: "exn \<Rightarrow> db_frame \<Rightarrow> db_frame" where
  "db_handler e f =
     (let f1 = log [PrintStderr (''Error creating database connection: '' @ exn_str e)] f;
          f2 = (case conn f1 of Some c \<Rightarrow> log [ConnClose c] f1 | None \<Rightarrow> f1);
          f3 = (case engine f2 of Some g \<Rightarrow> log [EngineDispose g] f2 | None \<Rightarrow> f2)
      in f3)"

definition create_db_connection ::
  "env \<Rightarrow> namespace \<Rightarrow> string \<Rightarrow> int \<Rightarrow> string \<Rightarrow> string \<Rightarrow> string \<Rightarrow> bool
     \<Rightarrow> db_result outcome \<times> db_frame"
where
  "create_db_connection w m dbhost dbport dbsid user_secret pswd_secret engine_only =
     (let f0 = \<lparr>trace = [], db_user = None, db_pswd = None, engine = None, conn = None\<rparr> in
      case db_try w m dbhost dbport dbsid user_secret pswd_secret engine_only f0 of
        (Inr v, f) \<Rightarrow> (Returned v, f)
      | (Inl e, f) \<Rightarrow> (SysExit 1, db_handler e f))"

subsection \<open>Resources left open\<close>



section \<open>Example environments\<close>

text \<open>
  The path exactly as the specification writes it,
  \<^verbatim>\<open>{secrets_dir}/{secret_name}_secret.txt.gpg\<close>, to be compared with \<open>enc_file\<close>.
\<close>

definition spec_enc_file :: "string \<Rightarrow> string" where
  "spec_enc_file secret_name = SECRETS_DIR @ ''/'' @ secret_name @ ''_secret.txt.gpg''"

definition digit :: "nat \<Rightarrow> char" where
  "digit d = ''0123456789'' ! d"

fun show_nat :: "nat \<Rightarrow> string" where
  "show_nat n = (if n < 10 then [digit n] else show_nat (n div 10) @ [digit (n mod 10)])"

text \<open>The descriptor cx\_Oracle's \<open>makedsn\<close> builds for a host, a port and a service name.\<close>

definition cx_makedsn :: "string \<Rightarrow> int \<Rightarrow> string \<Rightarrow> exn + string" where
  "cx_makedsn h p s =
     Inr (''(DESCRIPTION=(ADDRESS=(PROTOCOL=TCP)(HOST='' @ h @ '')(PORT='' @ show_nat (nat p)
          @ ''))(CONNECT_DATA=(SERVICE_NAME='' @ s @ '')))'')"

text \<open>
  A store that holds the secrets \<open>u\<close>, \<open>p\<close> and \<open>svc_user\<close>, a gpg that decrypts them, a
  directory server that binds and a database that accepts connections.
\<close>

definition store_run :: "string list \<Rightarrow> run_result" where
  "store_run cmd =
     (if cmd = gpg_cmd ''u'' then Completed 0 (''scott'' @ [CHR 0x0A]) []
      else if cmd = gpg_cmd ''p'' then Completed 0 (''tiger'' @ [CHR 0x0A]) []
      else if cmd = gpg_cmd ''svc_user'' then Completed 0 (''alice'' @ [CHR 0x0A]) []
      else Completed 2 [] (''gpg: decryption failed: No secret key'' @ [CHR 0x0A]))"

definition store_env :: env where
  "store_env =
     \<lparr>path_exists = (\<lambda>p. p \<in> set [enc_file ''u'', enc_file ''p'', enc_file ''svc_user'']),
      subprocess_run = store_run,
      ldap_Connection = (\<lambda>srv u p auto_bind. Inr \<lparr>conn_id = 1, bound = True\<rparr>),
      makedsn = cx_makedsn,
      create_engine = (\<lambda>url n. Inr (Engine 1)),
      engine_connect = (\<lambda>g. Inr (DbConnection 1))\<rparr>"


definition unbound_env :: env where
  "unbound_env =
     store_env\<lparr>ldap_Connection := (\<lambda>srv u p auto_bind. Inr \<lparr>conn_id = 1, bound = False\<rparr>)\<rparr>"


text \<open>
  The line both handlers print when the lookup of \<open>get_secret\<close> in \<open>secret_retriever\<close>
  fails, after their own prefix.
\<close>

definition no_get_secret :: string where
  "no_get_secret =
     ''module '' @ quoted ''secret_retriever'' @ '' has no attribute '' @ quoted ''get_secret''"


section \<open>The secret retriever\<close>

lemma enc_file_cases:
  "enc_file secret_name =
     (if secret_name \<noteq> [] \<and> hd secret_name = CHR ''/'' then secret_name @ ''_secret.txt.gpg''
      else spec_enc_file secret_name)"
  by (cases secret_name) (simp_all add: enc_file_def spec_enc_file_def path_join_def SECRETS_DIR_def)

lemma strip_split:
  "s = takeWhile is_space s @ strip s @ rev (takeWhile is_space (rev (lstrip s)))"
proof -
  have "rev (dropWhile is_space (rev (lstrip s))) @ rev (takeWhile is_space (rev (lstrip s)))
          = lstrip s"
    by (metis rev_append rev_rev_ident takeWhile_dropWhile_id)
  then show ?thesis
    by (simp add: strip_def rstrip_def lstrip_def)
qed

lemma strip_last: "strip s \<noteq> [] \<Longrightarrow> \<not> is_space (last (strip s))"
  by (simp add: strip_def rstrip_def last_rev hd_dropWhile)

lemma strip_hd:
  assumes "strip s \<noteq> []"
  shows "\<not> is_space (hd (strip s))"
proof -
  let ?t = "lstrip s"
  have t: "?t = strip s @ rev (takeWhile is_space (rev ?t))"
    using strip_split [of s]
    by (simp add: lstrip_def) (metis same_append_eq takeWhile_dropWhile_id append_assoc)
  from assms t have "hd ?t = hd (strip s)"
    by (metis hd_append2)
  moreover from assms t have "?t \<noteq> []"
    by auto
  then have "\<not> is_space (hd ?t)"
    by (simp add: lstrip_def hd_dropWhile)
  ultimately show ?thesis
    by simp
qed

lemma all_space_takeWhile: "list_all is_space (takeWhile is_space s)"
  by (simp add: list_all_iff) (meson set_takeWhileD)

lemmas env_simps =
  get_password_def gpg_cmd_def enc_file_def spec_enc_file_def path_join_def SECRETS_DIR_def
  GPG_PASSPHRASE_FILE_def strip_def lstrip_def rstrip_def is_space_def quoted_def

text \<open>
  C1. \<open>secret_retriever.py\<close> defines \<open>get_password\<close> and no \<open>get_secret\<close>. With the
  namespace that file leaves, every call of \<open>create_ldap_connection\<close> and of
  \<open>create_db_connection\<close> raises \<open>AttributeError\<close> at the first lookup, before anything is
  retrieved; the handler prints one line to standard error and the process exits with
  status 1. Neither builder returns.
\<close>

theorem builders_exit_on_undefined_get_secret:
  "create_ldap_connection w (secret_retriever w) ldap_server user_secret pswd_secret =
     (SysExit 1,
      \<lparr>trace = [PrintStderr (''Error creating LDAP connection: module '' @
                   quoted ''secret_retriever'' @ '' has no attribute '' @ quoted ''get_secret'')],
       oud_user = None, oud_pswd = None\<rparr>)
   \<and> create_db_connection w (secret_retriever w) dbhost dbport dbsid user_secret pswd_secret
        engine_only =
     (SysExit 1,
      \<lparr>trace = [PrintStderr (''Error creating database connection: module '' @
                   quoted ''secret_retriever'' @ '' has no attribute '' @ quoted ''get_secret'')],
       db_user = None, db_pswd = None, engine = None, conn = None\<rparr>)"
  by (simp add: create_ldap_connection_def ldap_try_def create_db_connection_def db_try_def
        db_handler_def call_attr_def secret_retriever_def log_def)

text \<open>
  C2, as stated: whenever \<^verbatim>\<open>{secrets_dir}/{secret_name}_secret.txt.gpg\<close> does not exist,
  \<open>get_password\<close> fails with the not-found error and runs no process. It fails for a secret
  name that starts with a slash: \<open>os.path.join\<close> then drops the secrets directory, the
  file tested is \<^verbatim>\<open>/tmp/x_secret.txt.gpg\<close>, and gpg is run on it.
\<close>

theorem get_password_absolute_name_counterexample:
  "\<not> path_exists (store_env\<lparr>path_exists := (\<lambda>p. p = ''/tmp/x_secret.txt.gpg'')\<rparr>)
       (spec_enc_file ''/tmp/x'')
   \<and> get_password (store_env\<lparr>path_exists := (\<lambda>p. p = ''/tmp/x_secret.txt.gpg'')\<rparr>) ''/tmp/x''
     = (Inl (Exn RuntimeError (''GPG decryption failed for '' @ quoted ''/tmp/x'' @
               '': gpg: decryption failed: No secret key'' @ [CHR 0x0A])),
        [SubprocessRun
           [''gpg'', ''--batch'', ''--quiet'', ''--yes'', ''--passphrase-file'',
            ''/opt/credential_store/.gpg_passphrase'', ''--decrypt'', ''/tmp/x_secret.txt.gpg'']
           (Completed 2 [] (''gpg: decryption failed: No secret key'' @ [CHR 0x0A]))])"
  by (simp add: env_simps store_env_def store_run_def)

text \<open>
  C2, amended: the file tested is \<open>os.path.join(SECRETS_DIR, secret_name + "_secret.txt.gpg")\<close>,
  which is \<^verbatim>\<open>{secrets_dir}/{secret_name}_secret.txt.gpg\<close> unless the name starts with a
  slash, and the suffixed name itself when it does. Whenever that file does not exist,
  \<open>get_password\<close> raises \<open>FileNotFoundError\<close> with a message naming the secret, and no
  process is run.
\<close>

theorem get_password_not_found:
  assumes "\<not> path_exists w (enc_file secret_name)"
  shows "get_password w secret_name =
           (Inl (Exn FileNotFoundError
              (''Encrypted secret for '' @ quoted secret_name @ '' not found.'')), [])
         \<and> enc_file secret_name =
           (if secret_name \<noteq> [] \<and> hd secret_name = CHR ''/''
            then secret_name @ ''_secret.txt.gpg'' else spec_enc_file secret_name)"
  using assms enc_file_cases [of secret_name] by (simp add: get_password_def)

theorem get_password_not_found_witness:
  "\<not> path_exists store_env (enc_file ''missing'')
   \<and> get_password store_env ''missing'' =
       (Inl (Exn FileNotFoundError (''Encrypted secret for '' @ quoted ''missing'' @ '' not found.'')),
        [])
   \<and> enc_file ''missing'' = ''/opt/credential_store/missing_secret.txt.gpg''"
proof -
  have h: "\<not> path_exists store_env (enc_file ''missing'')"
    by (simp add: store_env_def enc_file_def path_join_def SECRETS_DIR_def)
  show ?thesis
    using h get_password_not_found [OF h]
    by (simp add: spec_enc_file_def SECRETS_DIR_def)
qed

text \<open>
  C3, as stated: on success \<open>get_password\<close> returns the captured output with only trailing
  whitespace removed, leading content untouched. The code calls \<open>strip()\<close>, which trims
  both ends: for the output \<^verbatim>\<open>" alice\n"\<close> it returns \<^verbatim>\<open>"alice"\<close>, while trimming the
  end only gives \<^verbatim>\<open>" alice"\<close>.
\<close>

theorem get_password_leading_space_counterexample:
  "fst (get_password
          (store_env\<lparr>subprocess_run := (\<lambda>cmd. Completed 0 ('' alice'' @ [CHR 0x0A]) [])\<rparr>)
          ''svc_user'') = Inr ''alice''
   \<and> rstrip ('' alice'' @ [CHR 0x0A]) = '' alice''"
  by (simp add: env_simps store_env_def)

text \<open>
  C3, amended: on success (the file exists, gpg exits with 0) \<open>get_password\<close> returns the
  captured output with the whitespace at both ends removed and nothing else changed: the
  output is a run of whitespace, then the returned text, then a run of whitespace, and
  the returned text neither starts nor ends with whitespace. Exactly one process is run.
  For the output \<^verbatim>\<open>"alice\n"\<close> the result is \<^verbatim>\<open>"alice"\<close>.
\<close>

theorem get_password_strips_both_ends:
  assumes "path_exists w (enc_file secret_name)"
    and "subprocess_run w (gpg_cmd secret_name) = Completed 0 out err"
  shows "\<exists>pre res suf.
           get_password w secret_name =
             (Inr res, [SubprocessRun (gpg_cmd secret_name) (Completed 0 out err)])
           \<and> out = pre @ res @ suf
           \<and> list_all is_space pre \<and> list_all is_space suf
           \<and> (res \<noteq> [] \<longrightarrow> \<not> is_space (hd res) \<and> \<not> is_space (last res))"
proof -
  let ?pre = "takeWhile is_space out"
  let ?suf = "rev (takeWhile is_space (rev (lstrip out)))"
  have "get_password w secret_name =
          (Inr (strip out), [SubprocessRun (gpg_cmd secret_name) (Completed 0 out err)])"
    using assms by (simp add: get_password_def)
  moreover have "out = ?pre @ strip out @ ?suf"
    by (rule strip_split)
  moreover have "list_all is_space ?pre"
    by (rule all_space_takeWhile)
  moreover have "list_all is_space ?suf"
    using all_space_takeWhile [of "rev (lstrip out)"] by simp
  moreover have "strip out \<noteq> [] \<longrightarrow>
      \<not> is_space (hd (strip out)) \<and> \<not> is_space (last (strip out))"
    using strip_hd [of out] strip_last [of out] by blast
  ultimately show ?thesis
    by blast
qed

theorem get_password_strips_both_ends_witness:
  "path_exists store_env (enc_file ''svc_user'')
   \<and> subprocess_run store_env (gpg_cmd ''svc_user'') = Completed 0 (''alice'' @ [CHR 0x0A]) []
   \<and> get_password store_env ''svc_user'' =
       (Inr ''alice'',
        [SubprocessRun (gpg_cmd ''svc_user'') (Completed 0 (''alice'' @ [CHR 0x0A]) [])])
   \<and> (\<exists>pre res suf.
         get_password store_env ''svc_user'' =
           (Inr res, [SubprocessRun (gpg_cmd ''svc_user'') (Completed 0 (''alice'' @ [CHR 0x0A]) [])])
         \<and> ''alice'' @ [CHR 0x0A] = pre @ res @ suf
         \<and> list_all is_space pre \<and> list_all is_space suf
         \<and> (res \<noteq> [] \<longrightarrow> \<not> is_space (hd res) \<and> \<not> is_space (last res)))"
proof -
  have h1: "path_exists store_env (enc_file ''svc_user'')"
    by (simp add: store_env_def)
  have h2: "subprocess_run store_env (gpg_cmd ''svc_user'') = Completed 0 (''alice'' @ [CHR 0x0A]) []"
    by (simp add: store_env_def store_run_def gpg_cmd_def enc_file_def path_join_def SECRETS_DIR_def)
  have v: "get_password store_env ''svc_user'' =
       (Inr ''alice'',
        [SubprocessRun (gpg_cmd ''svc_user'') (Completed 0 (''alice'' @ [CHR 0x0A]) [])])"
    using h1 h2 by (simp add: get_password_def strip_def lstrip_def rstrip_def is_space_def)
  show ?thesis
    using h1 h2 v get_password_strips_both_ends [OF h1 h2] by simp
qed




section \<open>The connection builders\<close>



lemmas db_defs = create_db_connection_def db_try_def db_handler_def log_def

lemmas ldap_defs = create_ldap_connection_def ldap_try_def log_def

lemmas shipped_defs =
  db_defs ldap_defs call_attr_def secret_retriever_def no_get_secret_def

lemma store_secrets:
  "fst (get_password store_env ''u'') = Inr ''scott''"
  "fst (get_password store_env ''p'') = Inr ''tiger''"
  by (simp_all add: env_simps store_env_def store_run_def)








text \<open>
  C9 at a directory server that returns an unbound connection:
  \<open>create_ldap_connection\<close> builds no \<open>Tls\<close>, no \<open>Server\<close> and opens no \<open>Connection\<close>, for
  the address \<^verbatim>\<open>ldap.example.org\<close> as for any other. It ends at the lookup of
  \<open>get_secret\<close>, and the line it prints is the one for the missing attribute, not the
  one that names the server it could not bind to.
\<close>

theorem create_ldap_connection_builds_no_descriptor:
  "ldap_Connection unbound_env
      \<lparr>srv_host = ''ldap.example.org'', srv_port = 636, srv_get_info = GET_ALL_INFO,
        srv_use_ssl = True, srv_tls = \<lparr>validate = CERT_NONE\<rparr>\<rparr> ''scott'' ''tiger'' True =
     Inr \<lparr>conn_id = 1, bound = False\<rparr>
   \<and> create_ldap_connection unbound_env (secret_retriever unbound_env)
        ''ldap.example.org'' ''u'' ''p'' =
       (SysExit 1,
        \<lparr>trace = [PrintStderr (''Error creating LDAP connection: '' @ no_get_secret)],
         oud_user = None, oud_pswd = None\<rparr>)
   \<and> ''Error creating LDAP connection: '' @ no_get_secret
       \<noteq> ''Error creating LDAP connection: '' @ ''Error: cannot bind to '' @ ''ldap.example.org''"
  by (simp add: shipped_defs unbound_env_def quoted_def)

text \<open>
  C10 in the scenario of the claim (host \<^verbatim>\<open>dbhost\<close>, port 1521, service \<^verbatim>\<open>ORCL\<close>, the
  secrets \<open>u\<close> and \<open>p\<close> holding \<^verbatim>\<open>scott\<close> and \<^verbatim>\<open>tiger\<close>): \<open>create_db_connection\<close> calls
  neither \<open>makedsn\<close> nor \<open>create_engine\<close>. No connect string is composed and no engine is
  configured; the call ends at the lookup of \<open>get_secret\<close>.
\<close>

theorem connect_string_not_composed:
  "fst (get_password store_env ''u'') = Inr ''scott''
   \<and> fst (get_password store_env ''p'') = Inr ''tiger''
   \<and> makedsn store_env ''dbhost'' 1521 ''ORCL'' =
       Inr (''(DESCRIPTION=(ADDRESS=(PROTOCOL=TCP)(HOST=dbhost)(PORT=1521))'' @
            ''(CONNECT_DATA=(SERVICE_NAME=ORCL)))'')
   \<and> create_db_connection store_env (secret_retriever store_env)
        ''dbhost'' 1521 ''ORCL'' ''u'' ''p'' False =
       (SysExit 1,
        \<lparr>trace = [PrintStderr (''Error creating database connection: '' @ no_get_secret)],
         db_user = None, db_pswd = None, engine = None, conn = None\<rparr>)"
proof -
  have "makedsn store_env ''dbhost'' 1521 ''ORCL'' =
       Inr (''(DESCRIPTION=(ADDRESS=(PROTOCOL=TCP)(HOST=dbhost)(PORT=1521))'' @
            ''(CONNECT_DATA=(SERVICE_NAME=ORCL)))'')"
    by (simp add: store_env_def cx_makedsn_def digit_def)
  then show ?thesis
    using store_secrets by (simp add: shipped_defs)
qed

end
